theory Spec2Isabelle
  imports Complex_Main "HOL-Library.Word"
begin

section \<open>Native values\<close>

text \<open>
  The values that reach the composer and the codec of \<^verbatim>\<open>src/index.ts\<close>. A number is
  a finite rational (every finite double is one), or one of the three IEEE specials; the
  sign of zero is not kept. A \<^verbatim>\<open>Date\<close> is its time value in milliseconds, absent for an
  invalid date. \<^verbatim>\<open>Uint8Array\<close> and \<^verbatim>\<open>Buffer\<close> are byte lists. A plain object
  is the list of its own enumerable properties in the engine's property order. The four
  wrapper classes of the source (\<^verbatim>\<open>Parameter\<close>, \<^verbatim>\<open>Identifier\<close>, \<^verbatim>\<open>Query\<close>,
  \<^verbatim>\<open>Builder\<close>) are constructors carrying the fields their constructors store;
  a \<^verbatim>\<open>Promise\<close> that is not a \<^verbatim>\<open>Query\<close> is opaque. Functions and symbols are
  not modelled.
\<close>

datatype jsnum = Fin rat | NaN | PosInf | NegInf

datatype jsval =
    JUndefined
  | JNull
  | JBool bool
  | JNum jsnum
  | JStr string
  | JBigInt int
  | JDate "int option"
  | JBytes "8 word list"
  | JArr "jsval list"
  | JObj "(string \<times> jsval) list"
  | JPromise
  | Parameter jsval int "int list option"
  | Identifier string
  | Query "string list" "jsval list"
  | Builder jsval "jsval list"

text \<open>\<^verbatim>\<open>x[0]\<close> on an array: the first element, \<^verbatim>\<open>undefined\<close> when there is none.\<close>

fun first_elem :: "jsval list \<Rightarrow> jsval" where
  "first_elem [] = JUndefined"
| "first_elem (x # xs) = x"

section \<open>Type inference\<close>

text \<open>\<^verbatim>\<open>x % 1 === 0\<close>: true exactly for the integer-valued finite numbers
  (the remainder of a NaN or an infinity is NaN).\<close>

fun mod1_is_zero :: "jsnum \<Rightarrow> bool" where
  "mod1_is_zero (Fin r) = (r = of_int \<lfloor>r\<rfloor>)"
| "mod1_is_zero NaN = False"
| "mod1_is_zero PosInf = False"
| "mod1_is_zero NegInf = False"

text \<open>\<^verbatim>\<open>inferScalarType\<close>: \<^verbatim>\<open>null\<close> first, then the switch on \<^verbatim>\<open>typeof\<close>;
  every object kind (wrappers and promises included) has \<^verbatim>\<open>typeof\<close> "object", and
  \<^verbatim>\<open>undefined\<close> and \<^verbatim>\<open>bigint\<close> fall through the switch to the final 0.\<close>

fun inferScalarType :: "jsval \<Rightarrow> int" where
  "inferScalarType JNull = 0"
| "inferScalarType (JStr s) = 25"
| "inferScalarType (JNum n) = (if mod1_is_zero n then 23 else 700)"
| "inferScalarType (JBool b) = 16"
| "inferScalarType JUndefined = 0"
| "inferScalarType (JBigInt n) = 0"
| "inferScalarType v = 114"

text \<open>\<^verbatim>\<open>inferType\<close>, in the order of the source's conditional chain.\<close>

fun inferType :: "jsval \<Rightarrow> int" where
  "inferType (Parameter v t a) = t"
| "inferType (JDate d) = 1184"
| "inferType (JBytes bs) = 17"
| "inferType (JBool b) = 16"
| "inferType (JBigInt n) = 20"
| "inferType (JArr []) = inferScalarType JUndefined"
| "inferType (JArr (x # xs)) = inferType x"
| "inferType v = inferScalarType v"

text \<open>The names the source's own table of type identifiers gives (the comment block
  \<^verbatim>\<open>postgresTypeOIDtoName\<close>); 0 is the untyped tag.\<close>

definition OID_untyped :: int where "OID_untyped = 0"
definition OID_bool :: int where "OID_bool = 16"
definition OID_bytea :: int where "OID_bytea = 17"
definition OID_int8 :: int where "OID_int8 = 20"
definition OID_int4 :: int where "OID_int4 = 23"
definition OID_text :: int where "OID_text = 25"
definition OID_jsonb :: int where "OID_jsonb = 114"
definition OID_float4 :: int where "OID_float4 = 700"
definition OID_float8 :: int where "OID_float8 = 701"
definition OID_timestamptz :: int where "OID_timestamptz = 1184"

text \<open>A plain object in the sense of the claim: an object that is not a Date, an array or
  a buffer (and not one of the wrapper classes).\<close>

fun plain_object :: "jsval \<Rightarrow> bool" where
  "plain_object (JObj kvs) = True"
| "plain_object v = False"

section \<open>Array text parser\<close>

text \<open>
  The module-level scratch object \<^verbatim>\<open>arrayParserState\<close>: one record shared by all
  parses, so every parse takes the current record and returns the record it leaves behind.
  \<^verbatim>\<open>p\<close> and \<^verbatim>\<open>char\<close> start as \<^verbatim>\<open>null\<close>.
\<close>

record arrayParserState =
  st_i :: nat
  st_p :: "char option"
  st_char :: "char option"
  st_str :: string
  st_quoted :: bool
  st_last :: nat

definition arrayParserState_init :: arrayParserState where
  "arrayParserState_init =
     \<lparr>st_i = 0, st_p = None, st_char = None, st_str = [], st_quoted = False, st_last = 0\<rparr>"

text \<open>\<^verbatim>\<open>x.slice(a, b)\<close> for offsets that are not negative, and the text that
  \<^verbatim>\<open>s.str += x[k]\<close> appends: the character, or the text of \<^verbatim>\<open>undefined\<close> past the end.\<close>

definition slice :: "string \<Rightarrow> nat \<Rightarrow> nat \<Rightarrow> string" where
  "slice x a b = take (b - a) (drop a x)"

definition char_text :: "string \<Rightarrow> nat \<Rightarrow> string" where
  "char_text x k = (if k < length x then [x ! k] else ''undefined'')"

text \<open>\<^verbatim>\<open>parser ? parser(t) : t\<close>.\<close>

definition apply_parser :: "(string \<Rightarrow> jsval) option \<Rightarrow> string \<Rightarrow> jsval" where
  "apply_parser parser t = (case parser of Some f \<Rightarrow> f t | None \<Rightarrow> JStr t)"

text \<open>The statement after the \<^verbatim>\<open>for\<close> loop, reached when the loop runs out of input and
  when it leaves through \<^verbatim>\<open>break\<close>.\<close>

definition loop_end ::
  "arrayParserState \<Rightarrow> string \<Rightarrow> (string \<Rightarrow> jsval) option \<Rightarrow> jsval list
     \<Rightarrow> jsval list \<times> arrayParserState" where
  "loop_end s x parser xs =
     (if st_last s < st_i s
      then (xs @ [apply_parser parser (slice x (st_last s) (st_i s + 1))], s)
      else (xs, s))"

text \<open>The end of an iteration that did not break: \<^verbatim>\<open>s.p = s.char\<close>, then the
  loop's \<^verbatim>\<open>s.i++\<close>.\<close>

definition loop_next :: "arrayParserState \<Rightarrow> arrayParserState" where
  "loop_next s = s\<lparr>st_p := st_char s, st_i := st_i s + 1\<rparr>"

text \<open>
  The loop of \<^verbatim>\<open>arrayParserLoop\<close> from the current state with the elements collected so
  far, followed by the statement after the loop. An opening brace calls the whole function
  again on the shared state and goes on from the state that call leaves.
\<close>

function arrayParserLoop_from ::
  "arrayParserState \<Rightarrow> string \<Rightarrow> (string \<Rightarrow> jsval) option \<Rightarrow> int \<Rightarrow> jsval list
     \<Rightarrow> jsval list \<times> arrayParserState" where
  "arrayParserLoop_from s0 x parser typarray xs =
     (if st_i s0 < length x then
        (let c = x ! st_i s0; s = s0\<lparr>st_char := Some c\<rparr>;
             delimiter = (if typarray = 1020 then CHR '';'' else CHR '','') in
         if st_quoted s then
           (if c = CHR 0x5C then
              arrayParserLoop_from
                (loop_next (s\<lparr>st_str := st_str s @ char_text x (st_i s + 1), st_i := st_i s + 1\<rparr>))
                x parser typarray xs
            else if c = CHR 0x22 then
              arrayParserLoop_from
                (loop_next (s\<lparr>st_str := [], st_quoted := (char_text x (st_i s + 1) = [CHR 0x22]),
                               st_last := st_i s + 2\<rparr>))
                x parser typarray (xs @ [apply_parser parser (st_str s)])
            else
              arrayParserLoop_from (loop_next (s\<lparr>st_str := st_str s @ [c]\<rparr>)) x parser typarray xs)
         else if c = CHR 0x22 then
           arrayParserLoop_from (loop_next (s\<lparr>st_quoted := True\<rparr>)) x parser typarray xs
         else if c = CHR ''{'' then
           (case arrayParserLoop_from (s\<lparr>st_last := st_i s + 1, st_i := st_i s + 1\<rparr>)
                   x parser typarray [] of
              (sub, s') \<Rightarrow> arrayParserLoop_from (loop_next s') x parser typarray (xs @ [JArr sub]))
         else if c = CHR ''}'' then
           loop_end (s\<lparr>st_quoted := False, st_last := st_i s + 1\<rparr>) x parser
             (if st_last s < st_i s
              then xs @ [apply_parser parser (slice x (st_last s) (st_i s))] else xs)
         else if c = delimiter \<and> st_p s \<noteq> Some (CHR ''}'') \<and> st_p s \<noteq> Some (CHR 0x22) then
           arrayParserLoop_from (loop_next (s\<lparr>st_last := st_i s + 1\<rparr>)) x parser typarray
             (xs @ [apply_parser parser (slice x (st_last s) (st_i s))])
         else
           arrayParserLoop_from (loop_next s) x parser typarray xs)
      else loop_end s0 x parser xs)"
  by pat_completeness auto

lemma arrayParserLoop_from_i_mono:
  "arrayParserLoop_from_dom (s, x, parser, typarray, xs) \<Longrightarrow>
     st_i s \<le> st_i (snd (arrayParserLoop_from s x parser typarray xs))"
proof (induction s x parser typarray xs rule: arrayParserLoop_from.pinduct)
  case (1 s0 x parser typarray xs)
  show ?case
    apply (subst arrayParserLoop_from.psimps [OF "1.hyps"])
    using "1.IH"
    apply (simp add: Let_def loop_next_def loop_end_def split: prod.splits)
    apply (intro conjI impI allI)
    apply (force simp: Let_def loop_next_def loop_end_def split: prod.splits if_splits)+
    done
qed

termination arrayParserLoop_from
  apply (relation "measure (\<lambda>(s, x, parser, typarray, xs). length x - st_i s)")
  apply (simp_all add: loop_next_def)
  apply (drule arrayParserLoop_from_i_mono)
  apply (auto simp: prod_eq_iff)
  done

declare arrayParserLoop_from.simps [simp del]


definition arrayParserLoop ::
  "arrayParserState \<Rightarrow> string \<Rightarrow> (string \<Rightarrow> jsval) option \<Rightarrow> int
     \<Rightarrow> jsval list \<times> arrayParserState" where
  "arrayParserLoop s x parser typarray = arrayParserLoop_from s x parser typarray []"

text \<open>\<^verbatim>\<open>arrayParser\<close> resets \<^verbatim>\<open>i\<close> and \<^verbatim>\<open>last\<close> and nothing else.\<close>

definition arrayParser ::
  "arrayParserState \<Rightarrow> string \<Rightarrow> (string \<Rightarrow> jsval) option \<Rightarrow> int
     \<Rightarrow> jsval list \<times> arrayParserState" where
  "arrayParser s x parser typarray = arrayParserLoop (s\<lparr>st_i := 0, st_last := 0\<rparr>) x parser typarray"

section \<open>Errors and the host runtime\<close>

text \<open>The exceptions the code can raise, by their JavaScript class, with the message.
  \<open>Unmodelled\<close> is not an exception of the program: it marks a read that the model of the
  values does not cover (see the properties of values below), where the model stops.\<close>

datatype error =
    TypeError string
  | RangeError string
  | SyntaxError string
  | Error string
  | Unmodelled string

text \<open>
  The conversions of the host that depend on floating point, the calendar or the JSON
  grammar are taken as parameters: \<^verbatim>\<open>Number::toString\<close> and \<^verbatim>\<open>StringToNumber\<close>
  outside the plain decimal integers, \<^verbatim>\<open>Date.prototype.toISOString\<close> and the
  \<^verbatim>\<open>Date\<close> constructor on a string, \<^verbatim>\<open>JSON.stringify\<close> and \<^verbatim>\<open>JSON.parse\<close>,
  and \<^verbatim>\<open>BigInt\<close> on a string that is not a plain decimal integer.
\<close>

record runtime =
  rt_number_text :: "rat \<Rightarrow> string"
  rt_string_number :: "string \<Rightarrow> jsnum"
  rt_date_iso :: "int \<Rightarrow> string"
  rt_date_parse :: "string \<Rightarrow> int option"
  rt_json_text :: "jsval \<Rightarrow> error + string"
  rt_json_parse :: "string \<Rightarrow> error + jsval"
  rt_string_bigint :: "string \<Rightarrow> error + int"

section \<open>Decimal text\<close>

definition digit_char :: "nat \<Rightarrow> char" where
  "digit_char d = char_of (48 + d)"

function nat_text :: "nat \<Rightarrow> string" where
  "nat_text n = (if n < 10 then [digit_char n] else nat_text (n div 10) @ [digit_char (n mod 10)])"
  by pat_completeness auto
termination
  by (relation "measure id") auto

declare nat_text.simps [simp del]

definition int_text :: "int \<Rightarrow> string" where
  "int_text k = (if k < 0 then CHR ''-'' # nat_text (nat (- k)) else nat_text (nat k))"

definition is_digit :: "char \<Rightarrow> bool" where
  "is_digit c = (48 \<le> (of_char c :: nat) \<and> (of_char c :: nat) \<le> 57)"

definition digit_val :: "char \<Rightarrow> nat" where
  "digit_val c = of_char c - 48"

definition digits_value :: "string \<Rightarrow> nat" where
  "digits_value ds = foldl (\<lambda>acc c. 10 * acc + digit_val c) 0 ds"

text \<open>The white space that \<^verbatim>\<open>StringToNumber\<close> and \<^verbatim>\<open>StringToBigInt\<close> strip, among
  the characters below 256.\<close>

definition is_space :: "char \<Rightarrow> bool" where
  "is_space c = ((of_char c :: nat) \<in> {9, 10, 11, 12, 13, 32, 160})"

definition trim :: "string \<Rightarrow> string" where
  "trim s = rev (dropWhile is_space (rev (dropWhile is_space s)))"

definition unsigned_digits :: "string \<Rightarrow> nat option" where
  "unsigned_digits ds = (if ds \<noteq> [] \<and> list_all is_digit ds then Some (digits_value ds) else None)"

text \<open>A decimal integer literal with an optional sign.\<close>

fun signed_digits :: "string \<Rightarrow> int option" where
  "signed_digits [] = None"
| "signed_digits (c # cs) =
     (if c = CHR ''-'' then map_option (\<lambda>n. - int n) (unsigned_digits cs)
      else if c = CHR ''+'' then map_option int (unsigned_digits cs)
      else map_option int (unsigned_digits (c # cs)))"

section \<open>Serializer\<close>

text \<open>
  \<^verbatim>\<open>"" + x\<close> on a number. The decimal digits are written out for the integers up to
  \<open>2\<^sup>5\<^sup>3\<close> in absolute value, where the shortest digits that round-trip are all the
  digits; the text of any other finite number is the runtime's.
\<close>

fun number_to_string :: "runtime \<Rightarrow> jsnum \<Rightarrow> string" where
  "number_to_string rt (Fin r) =
     (if r = of_int \<lfloor>r\<rfloor> \<and> \<bar>r\<bar> \<le> 2 ^ 53 then int_text \<lfloor>r\<rfloor> else rt_number_text rt r)"
| "number_to_string rt NaN = ''NaN''"
| "number_to_string rt PosInf = ''Infinity''"
| "number_to_string rt NegInf = ''-Infinity''"

text \<open>\<^verbatim>\<open>JSON.stringify\<close> on the objects that reach it from \<^verbatim>\<open>serialize\<close>.\<close>

fun json_stringify :: "runtime \<Rightarrow> jsval \<Rightarrow> error + string" where
  "json_stringify rt JNull = Inr ''null''"
| "json_stringify rt v = rt_json_text rt v"

text \<open>\<^verbatim>\<open>Array.prototype.join\<close> on the mapped array: an \<^verbatim>\<open>undefined\<close> element is
  joined as the empty text.\<close>

fun join_texts :: "string \<Rightarrow> string option list \<Rightarrow> string" where
  "join_texts sep [] = []"
| "join_texts sep [t] = (case t of Some s \<Rightarrow> s | None \<Rightarrow> [])"
| "join_texts sep (t # ts) = (case t of Some s \<Rightarrow> s | None \<Rightarrow> []) @ sep @ join_texts sep ts"

text \<open>
  \<^verbatim>\<open>serialize\<close>: a Parameter is unwrapped once, then the switch on \<^verbatim>\<open>typeof x\<close>.
  \<^verbatim>\<open>null\<close> and every wrapper are objects and reach \<^verbatim>\<open>JSON.stringify\<close>; an
  \<^verbatim>\<open>undefined\<close> matches no case and the result is \<^verbatim>\<open>undefined\<close> (\<open>None\<close>);
  \<^verbatim>\<open>toISOString\<close> raises on an invalid date.
\<close>

fun serialize :: "runtime \<Rightarrow> jsval \<Rightarrow> error + string option"
  and serialize_switch :: "runtime \<Rightarrow> jsval \<Rightarrow> error + string option"
  and serialize_map :: "runtime \<Rightarrow> jsval list \<Rightarrow> error + string option list" where
  "serialize rt (Parameter v t a) = serialize_switch rt v"
| "serialize rt JUndefined = serialize_switch rt JUndefined"
| "serialize rt JNull = serialize_switch rt JNull"
| "serialize rt (JBool b) = serialize_switch rt (JBool b)"
| "serialize rt (JNum n) = serialize_switch rt (JNum n)"
| "serialize rt (JStr s) = serialize_switch rt (JStr s)"
| "serialize rt (JBigInt k) = serialize_switch rt (JBigInt k)"
| "serialize rt (JDate d) = serialize_switch rt (JDate d)"
| "serialize rt (JBytes bs) = serialize_switch rt (JBytes bs)"
| "serialize rt (JArr xs) = serialize_switch rt (JArr xs)"
| "serialize rt (JObj kvs) = serialize_switch rt (JObj kvs)"
| "serialize rt JPromise = serialize_switch rt JPromise"
| "serialize rt (Identifier s) = serialize_switch rt (Identifier s)"
| "serialize rt (Query ss as) = serialize_switch rt (Query ss as)"
| "serialize rt (Builder f r) = serialize_switch rt (Builder f r)"
| "serialize_switch rt (JStr s) = Inr (Some s)"
| "serialize_switch rt (JNum n) = Inr (Some (number_to_string rt n))"
| "serialize_switch rt (JBool b) = Inr (Some (if b then ''t'' else ''f''))"
| "serialize_switch rt (JBigInt k) = Inr (Some (int_text k))"
| "serialize_switch rt (JDate d) =
     (case d of None \<Rightarrow> Inl (RangeError ''Invalid time value'')
      | Some t \<Rightarrow> Inr (Some (rt_date_iso rt t)))"
| "serialize_switch rt (JArr xs) =
     (case serialize_map rt xs of Inl e \<Rightarrow> Inl e
      | Inr ts \<Rightarrow> Inr (Some (''{'' @ join_texts '','' ts @ ''}'')))"
| "serialize_switch rt JUndefined = Inr None"
| "serialize_switch rt v = map_sum id Some (json_stringify rt v)"
| "serialize_map rt [] = Inr []"
| "serialize_map rt (x # xs) =
     (case serialize rt x of Inl e \<Rightarrow> Inl e
      | Inr t \<Rightarrow> (case serialize_map rt xs of Inl e \<Rightarrow> Inl e | Inr ts \<Rightarrow> Inr (t # ts)))"

section \<open>Deserializer\<close>

text \<open>
  Unary plus on a string. White space is stripped; the empty text is 0; a decimal integer
  literal is its value (exact: the rounding of integers beyond \<open>2\<^sup>5\<^sup>3\<close> to the nearest
  double is not modelled); any other text is converted by the runtime.
\<close>

definition to_number :: "runtime \<Rightarrow> string \<Rightarrow> jsnum" where
  "to_number rt s =
     (if trim s = [] then Fin 0
      else case signed_digits (trim s) of
             Some k \<Rightarrow> Fin (of_int k)
           | None \<Rightarrow> rt_string_number rt s)"

text \<open>\<^verbatim>\<open>BigInt(value)\<close> on a string, likewise.\<close>

definition to_bigint :: "runtime \<Rightarrow> string \<Rightarrow> error + int" where
  "to_bigint rt s =
     (if trim s = [] then Inr 0
      else case signed_digits (trim s) of
             Some k \<Rightarrow> Inr k
           | None \<Rightarrow> rt_string_bigint rt s)"

text \<open>\<^verbatim>\<open>Buffer.from(text, "hex")\<close>: pairs of hexadecimal digits, up to the first pair
  that is not one.\<close>

definition hex_val :: "char \<Rightarrow> nat option" where
  "hex_val c =
     (let n = (of_char c :: nat) in
      if 48 \<le> n \<and> n \<le> 57 then Some (n - 48)
      else if 97 \<le> n \<and> n \<le> 102 then Some (n - 87)
      else if 65 \<le> n \<and> n \<le> 70 then Some (n - 55)
      else None)"

fun hex_decode :: "string \<Rightarrow> 8 word list" where
  "hex_decode (a # b # cs) =
     (case (hex_val a, hex_val b) of
        (Some h, Some l) \<Rightarrow> of_nat (16 * h + l) # hex_decode cs
      | _ \<Rightarrow> [])"
| "hex_decode cs = []"

text \<open>\<^verbatim>\<open>Array.prototype.flat()\<close>: one level.\<close>

fun flat :: "jsval list \<Rightarrow> jsval list" where
  "flat [] = []"
| "flat (JArr ys # xs) = ys @ flat xs"
| "flat (x # xs) = x # flat xs"

text \<open>
  \<^verbatim>\<open>deserialize\<close>, a switch on the type identifier of the column. The array case
  parses on the shared scratch state with the element parser \<^verbatim>\<open>(x) => deserialize(x, 0)\<close>,
  which is the numeric case; so the function takes the scratch state and returns it.
\<close>

definition deserialize ::
  "runtime \<Rightarrow> arrayParserState \<Rightarrow> string \<Rightarrow> int \<Rightarrow> (error + jsval) \<times> arrayParserState" where
  "deserialize rt st v dataTypeId =
     (if dataTypeId \<in> {0, 21, 23, 26, 700, 701} then (Inr (JNum (to_number rt v)), st)
      else if dataTypeId = 17 then (Inr (JBytes (hex_decode (drop 2 v))), st)
      else if dataTypeId = 16 then (Inr (JBool (v = ''t'')), st)
      else if dataTypeId = 20 then (map_sum id JBigInt (to_bigint rt v), st)
      else if dataTypeId = 25 then (Inr (JStr v), st)
      else if dataTypeId \<in> {1184, 1082, 1114} then (Inr (JDate (rt_date_parse rt v)), st)
      else if dataTypeId \<in> {3802, 114} then (rt_json_parse rt v, st)
      else if dataTypeId = 1007 then
        (case arrayParser st v (Some (\<lambda>x. JNum (to_number rt x))) 0 of
           (xs, st') \<Rightarrow> (Inr (JArr (flat xs)), st'))
      else (Inr (JStr v), st))"

section \<open>What the round trip asks of the host\<close>


section \<open>Options\<close>

text \<open>
  The \<^verbatim>\<open>options\<close> object the composer threads through. Only \<^verbatim>\<open>options.transform\<close> is
  read: its \<^verbatim>\<open>undefined\<close> member (the substitute for an \<^verbatim>\<open>undefined\<close> value) and its
  \<^verbatim>\<open>column\<close> member with the optional function \<^verbatim>\<open>to\<close>. A member that is absent is
  \<open>None\<close>, or \<open>JUndefined\<close> for the substitute. \<^verbatim>\<open>Query.prepare\<close> passes the empty
  object.
\<close>

record column_opts =
  col_to :: "(jsval \<Rightarrow> jsval) option"

record transform_opts =
  tr_undefined :: jsval
  tr_column :: "column_opts option"

record options =
  opt_transform :: "transform_opts option"

definition empty_options :: options where
  "empty_options = \<lparr>opt_transform = None\<rparr>"

section \<open>Placeholders\<close>

text \<open>\<^verbatim>\<open>firstIsString\<close>.\<close>

fun firstIsString :: "jsval \<Rightarrow> int" where
  "firstIsString (JArr []) = 0"
| "firstIsString (JArr (x # xs)) = firstIsString x"
| "firstIsString (JStr s) = 1009"
| "firstIsString v = 0"

text \<open>\<^verbatim>\<open>x.array[k]\<close> read as a type: 0 when the index is out of range (the
  \<^verbatim>\<open>undefined\<close> there is as falsy as 0 in the chain of \<^verbatim>\<open>||\<close>).\<close>

definition array_at :: "int list \<Rightarrow> int \<Rightarrow> int" where
  "array_at arr k = (if 0 \<le> k \<and> nat k < length arr then arr ! nat k else 0)"

text \<open>The argument of \<^verbatim>\<open>types.push\<close> for a Parameter:
  \<^verbatim>\<open>x.array ? x.array[x.type || inferType(x.value)] || x.type || firstIsString(x.value) : x.type\<close>.\<close>

definition parameter_type :: "jsval \<Rightarrow> int \<Rightarrow> int list option \<Rightarrow> int" where
  "parameter_type v t a =
     (case a of
        None \<Rightarrow> t
      | Some arr \<Rightarrow>
          (let k = array_at arr (if t \<noteq> 0 then t else inferType v) in
           if k \<noteq> 0 then k else if t \<noteq> 0 then t else firstIsString v))"

text \<open>The second half of \<^verbatim>\<open>handleValue\<close>: both pushes and the placeholder
  \<^verbatim>\<open>"$" + idx\<close>, where \<^verbatim>\<open>idx\<close> is the new length of \<^verbatim>\<open>types\<close>.\<close>

definition push_value ::
  "jsval \<Rightarrow> jsval list \<Rightarrow> int list \<Rightarrow> string \<times> jsval list \<times> int list" where
  "push_value x parameters types =
     (case x of
        Parameter v t a \<Rightarrow>
          (CHR ''$'' # nat_text (length types + 1), parameters @ [v], types @ [parameter_type v t a])
      | _ \<Rightarrow>
          (CHR ''$'' # nat_text (length types + 1), parameters @ [x], types @ [inferType x]))"

text \<open>
  \<^verbatim>\<open>handleValue\<close>. Reading \<^verbatim>\<open>options.transform.undefined\<close> raises a TypeError when
  \<^verbatim>\<open>options.transform\<close> is absent. For a Parameter the substitute is stored in the
  wrapper but the local \<^verbatim>\<open>value\<close> stays \<^verbatim>\<open>undefined\<close>, so the error follows in every
  case; a bare \<^verbatim>\<open>undefined\<close> is replaced by the substitute, which may be a Parameter.
\<close>

definition handleValue ::
  "jsval \<Rightarrow> jsval list \<Rightarrow> int list \<Rightarrow> options \<Rightarrow> error + (string \<times> jsval list \<times> int list)" where
  "handleValue x parameters types opts =
     (let v = (case x of Parameter v t a \<Rightarrow> v | _ \<Rightarrow> x) in
      if v = JUndefined then
        (case opt_transform opts of
           None \<Rightarrow> Inl (TypeError ''Cannot read properties of undefined (reading undefined)'')
         | Some tr \<Rightarrow>
             (case x of
                Parameter v' t a \<Rightarrow> Inl (Error ''Undefined values are not allowed'')
              | _ \<Rightarrow>
                  if tr_undefined tr = JUndefined
                  then Inl (Error ''Undefined values are not allowed'')
                  else Inr (push_value (tr_undefined tr) parameters types)))
      else Inr (push_value x parameters types))"

section \<open>Identifiers\<close>

text \<open>\<^verbatim>\<open>escapeIdentifier\<close>: every double quote doubled, then every period turned into
  \<^verbatim>\<open>"."\<close>, the whole in double quotes.\<close>

definition escapeIdentifier :: "string \<Rightarrow> string" where
  "escapeIdentifier str =
     CHR 0x22 #
     concat (map (\<lambda>c. if c = CHR ''.'' then [CHR 0x22, CHR ''.'', CHR 0x22] else [c])
               (concat (map (\<lambda>c. if c = CHR 0x22 then [CHR 0x22, CHR 0x22] else [c]) str)))
     @ [CHR 0x22]"

text \<open>\<^verbatim>\<open>escapeIdentifier\<close> applied to a value: only a string has \<^verbatim>\<open>replace\<close>.\<close>

definition escape_value :: "jsval \<Rightarrow> error + string" where
  "escape_value v =
     (case v of
        JStr s \<Rightarrow> Inr (escapeIdentifier s)
      | _ \<Rightarrow> Inl (TypeError ''str.replace is not a function''))"

text \<open>\<^verbatim>\<open>escapeIdentifier(options.transform.column.to ? options.transform.column.to(x) : x)\<close>:
  the two property reads come first and raise when a link is absent.\<close>

definition escape_column :: "options \<Rightarrow> jsval \<Rightarrow> error + string" where
  "escape_column opts x =
     (case opt_transform opts of
        None \<Rightarrow> Inl (TypeError ''Cannot read properties of undefined (reading column)'')
      | Some tr \<Rightarrow>
          (case tr_column tr of
             None \<Rightarrow> Inl (TypeError ''Cannot read properties of undefined (reading to)'')
           | Some col \<Rightarrow>
               (case col_to col of Some f \<Rightarrow> escape_value (f x) | None \<Rightarrow> escape_value x)))"

text \<open>A list of results in the order of evaluation; the first error ends it.\<close>

fun collect :: "(error + 'a) list \<Rightarrow> error + 'a list" where
  "collect [] = Inr []"
| "collect (Inl e # rs) = Inl e"
| "collect (Inr x # rs) = map_sum id (Cons x) (collect rs)"

definition join :: "string \<Rightarrow> string list \<Rightarrow> string" where
  "join sep ts = join_texts sep (map Some ts)"

text \<open>
  \<^verbatim>\<open>escapeIdentifiers(xs, { transform: { column } })\<close>: the destructuring of the second
  argument raises when \<^verbatim>\<open>options.transform\<close> is absent; \<^verbatim>\<open>xs.map\<close> needs an array;
  \<^verbatim>\<open>column.to\<close> is read once per element.
\<close>

definition escapeIdentifiers :: "jsval \<Rightarrow> options \<Rightarrow> error + string" where
  "escapeIdentifiers xs opts =
     (case opt_transform opts of
        None \<Rightarrow> Inl (TypeError ''Cannot destructure property column of undefined'')
      | Some tr \<Rightarrow>
          (case xs of
             JArr ys \<Rightarrow> map_sum id (join '','') (collect (map (escape_column opts) ys))
           | _ \<Rightarrow> Inl (TypeError ''xs.map is not a function'')))"

section \<open>Keyword search\<close>

text \<open>
  Each builder is found by the regular expression
  \<^verbatim>\<open>((?:^|[\s(])KEYWORD(?:$|[\s(]))(?![\s\S]*\1)\<close> with the flag \<^verbatim>\<open>i\<close>: the keyword
  between two boundaries (the start of the text, its end, a white space character or an
  opening parenthesis), such that the text matched does not occur again, letter case
  aside, after the match. \<^verbatim>\<open>before.search(x)\<close> is the first offset where a match starts,
  or -1.
\<close>

definition upper :: "char \<Rightarrow> char" where
  "upper c = (let n = (of_char c :: nat) in if 97 \<le> n \<and> n \<le> 122 then char_of (n - 32) else c)"

fun ci_prefix :: "string \<Rightarrow> string \<Rightarrow> bool" where
  "ci_prefix [] t = True"
| "ci_prefix (c # cs) [] = False"
| "ci_prefix (c # cs) (d # ds) = (upper c = upper d \<and> ci_prefix cs ds)"

definition is_boundary :: "char \<Rightarrow> bool" where
  "is_boundary c = (is_space c \<or> c = CHR ''('')"

text \<open>The captured text occurs at some offset from \<open>k\<close> on.\<close>

definition occurs_from :: "string \<Rightarrow> string \<Rightarrow> nat \<Rightarrow> bool" where
  "occurs_from cap t k = list_ex (\<lambda>k'. ci_prefix cap (drop k' t)) [k..<Suc (length t)]"

text \<open>A match that starts at \<open>j\<close> with a left boundary of \<open>p\<close> characters (none at the
  start of the text, one otherwise).\<close>

definition match_with :: "string \<Rightarrow> string \<Rightarrow> nat \<Rightarrow> nat \<Rightarrow> bool" where
  "match_with t kw j p =
     (let e = j + p + length kw in
      e \<le> length t \<and> ci_prefix kw (drop (j + p) t) \<and>
      (e = length t \<or>
       (is_boundary (t ! e) \<and> \<not> occurs_from (take (e + 1 - j) (drop j t)) t (e + 1))))"

definition matches_at :: "string \<Rightarrow> string \<Rightarrow> nat \<Rightarrow> bool" where
  "matches_at t kw j =
     ((j = 0 \<and> match_with t kw j 0) \<or> (j < length t \<and> is_boundary (t ! j) \<and> match_with t kw j 1))"

definition search :: "string \<Rightarrow> string \<Rightarrow> int" where
  "search t kw = (case find (matches_at t kw) [0..<Suc (length t)] of Some j \<Rightarrow> int j | None \<Rightarrow> - 1)"

text \<open>The table \<^verbatim>\<open>builders\<close>, in the order of the object literal; \<^verbatim>\<open>as\<close>,
  \<^verbatim>\<open>returning\<close> and the opening parenthesis share the function \<^verbatim>\<open>select\<close>.\<close>

datatype builder_fn = Values_fn | In_fn | Select_fn | Update_fn | Insert_fn

definition builders :: "(string \<times> builder_fn) list" where
  "builders =
     [(''values'', Values_fn), (''in'', In_fn), (''select'', Select_fn), (''as'', Select_fn),
      (''returning'', Select_fn), (''('', Select_fn), (''update'', Update_fn),
      (''insert'', Insert_fn)]"

text \<open>\<^verbatim>\<open>builders.map(([x, fn]) => ({ fn, i: before.search(x) })).sort((a, b) => a.i - b.i).pop()\<close>:
  the sort is stable, so the last entry of the greatest offset is taken.\<close>

definition keyword :: "string \<Rightarrow> builder_fn \<times> int" where
  "keyword before = last (sort_key snd (map (\<lambda>(x, f). (f, search before x)) builders))"

section \<open>Properties of values\<close>

text \<open>
  \<^verbatim>\<open>Array.isArray\<close>, \<^verbatim>\<open>Object.keys\<close> and the property read \<^verbatim>\<open>row[column]\<close> on the
  values that carry data. The own properties of the wrapper objects and of a promise, a
  property key that is neither a string nor a small integer, and inherited properties are
  outside the model: the first two are reported as \<open>Unmodelled\<close>, an inherited property
  reads as \<^verbatim>\<open>undefined\<close>.
\<close>

fun isArray :: "jsval \<Rightarrow> bool" where
  "isArray (JArr xs) = True"
| "isArray v = False"

fun to_key :: "jsval \<Rightarrow> error + string" where
  "to_key (JStr s) = Inr s"
| "to_key (JNum (Fin r)) =
     (if r = of_int \<lfloor>r\<rfloor> \<and> \<bar>r\<bar> \<le> 2 ^ 53 then Inr (int_text \<lfloor>r\<rfloor>)
      else Inl (Unmodelled ''property key''))"
| "to_key JUndefined = Inr ''undefined''"
| "to_key JNull = Inr ''null''"
| "to_key (JBool b) = Inr (if b then ''true'' else ''false'')"
| "to_key (JBigInt k) = Inr (int_text k)"
| "to_key v = Inl (Unmodelled ''property key'')"

text \<open>An array index in canonical form below \<open>n\<close>.\<close>

definition index_of :: "string \<Rightarrow> nat \<Rightarrow> nat option" where
  "index_of k n =
     (case unsigned_digits k of
        Some i \<Rightarrow> if nat_text i = k \<and> i < n then Some i else None
      | None \<Rightarrow> None)"

definition indexed ::
  "string \<Rightarrow> nat \<Rightarrow> (nat \<Rightarrow> jsval) \<Rightarrow> jsval" where
  "indexed k n elem =
     (case index_of k n of
        Some i \<Rightarrow> elem i
      | None \<Rightarrow> if k = ''length'' then JNum (Fin (of_nat n)) else JUndefined)"

fun get_key :: "jsval \<Rightarrow> string \<Rightarrow> error + jsval" where
  "get_key JUndefined k = Inl (TypeError ''Cannot read properties of undefined'')"
| "get_key JNull k = Inl (TypeError ''Cannot read properties of null'')"
| "get_key (JObj kvs) k = Inr (case map_of kvs k of Some v \<Rightarrow> v | None \<Rightarrow> JUndefined)"
| "get_key (JArr xs) k = Inr (indexed k (length xs) (\<lambda>i. xs ! i))"
| "get_key (JStr s) k = Inr (indexed k (length s) (\<lambda>i. JStr [s ! i]))"
| "get_key (JBytes bs) k = Inr (indexed k (length bs) (\<lambda>i. JNum (Fin (of_nat (unat (bs ! i))))))"
| "get_key (JBool b) k = Inr JUndefined"
| "get_key (JNum n) k = Inr JUndefined"
| "get_key (JBigInt n) k = Inr JUndefined"
| "get_key (JDate d) k = Inr JUndefined"
| "get_key v k = Inl (Unmodelled ''property of a wrapper or promise'')"

definition get_prop :: "jsval \<Rightarrow> jsval \<Rightarrow> error + jsval" where
  "get_prop v column =
     (case v of
        JUndefined \<Rightarrow> get_key v []
      | JNull \<Rightarrow> get_key v []
      | _ \<Rightarrow> (case to_key column of Inl e \<Rightarrow> Inl e | Inr k \<Rightarrow> get_key v k))"

fun object_keys :: "jsval \<Rightarrow> error + jsval list" where
  "object_keys JUndefined = Inl (TypeError ''Cannot convert undefined or null to object'')"
| "object_keys JNull = Inl (TypeError ''Cannot convert undefined or null to object'')"
| "object_keys (JObj kvs) = Inr (map (\<lambda>(k, v). JStr k) kvs)"
| "object_keys (JArr xs) = Inr (map (\<lambda>i. JStr (nat_text i)) [0..<length xs])"
| "object_keys (JStr s) = Inr (map (\<lambda>i. JStr (nat_text i)) [0..<length s])"
| "object_keys (JBytes bs) = Inr (map (\<lambda>i. JStr (nat_text i)) [0..<length bs])"
| "object_keys (JBool b) = Inr []"
| "object_keys (JNum n) = Inr []"
| "object_keys (JBigInt n) = Inr []"
| "object_keys (JDate d) = Inr []"
| "object_keys v = Inl (Unmodelled ''keys of a wrapper or promise'')"

text \<open>\<^verbatim>\<open>rest.length ? rest.flat() : Object.keys(source)\<close>, where the source of the keys
  is itself the result of a property read that may raise.\<close>

definition columns_of :: "jsval list \<Rightarrow> error + jsval \<Rightarrow> error + jsval list" where
  "columns_of rest source =
     (if rest \<noteq> [] then Inr (flat rest)
      else case source of Inl e \<Rightarrow> Inl e | Inr v \<Rightarrow> object_keys v)"

section \<open>Template composer\<close>

text \<open>\<^verbatim>\<open>xs.map(f)\<close> for a callback that pushes onto the shared \<^verbatim>\<open>parameters\<close> and
  \<^verbatim>\<open>types\<close>: left to right, and the first exception ends it.\<close>

fun map_acc ::
  "('a \<Rightarrow> jsval list \<Rightarrow> int list \<Rightarrow> error + ('b \<times> jsval list \<times> int list))
     \<Rightarrow> 'a list \<Rightarrow> jsval list \<Rightarrow> int list \<Rightarrow> error + ('b list \<times> jsval list \<times> int list)" where
  "map_acc f [] parameters types = Inr ([], parameters, types)"
| "map_acc f (x # xs) parameters types =
     (case f x parameters types of
        Inl e \<Rightarrow> Inl e
      | Inr (y, parameters', types') \<Rightarrow>
          (case map_acc f xs parameters' types' of
             Inl e \<Rightarrow> Inl e
           | Inr (ys, parameters'', types'') \<Rightarrow> Inr (y # ys, parameters'', types'')))"

lemma map_acc_cong [fundef_cong]:
  "xs = ys \<Longrightarrow> ps = ps' \<Longrightarrow> ts = ts' \<Longrightarrow> (\<And>x p t. x \<in> set ys \<Longrightarrow> f x p t = g x p t)
     \<Longrightarrow> map_acc f xs ps ts = map_acc g ys ps' ts'"
proof (induction ys arbitrary: xs ps ps' ts ts')
  case Nil
  then show ?case by simp
next
  case (Cons y ys)
  from Cons.prems have fg: "f y ps' ts' = g y ps' ts'" by simp
  have "\<And>p t. map_acc f ys p t = map_acc g ys p t"
    by (rule Cons.IH) (use Cons.prems in auto)
  with Cons.prems fg show ?case by (simp split: sum.splits prod.splits)
qed

text \<open>The weight of a value: what the recursion of the composer descends on.\<close>

fun wt :: "jsval \<Rightarrow> nat"
  and wt_list :: "jsval list \<Rightarrow> nat"
  and wt_fields :: "(string \<times> jsval) list \<Rightarrow> nat"
  and wt_field :: "string \<times> jsval \<Rightarrow> nat" where
  "wt (JArr xs) = wt_list xs + 1"
| "wt (JObj kvs) = wt_fields kvs + 1"
| "wt (Parameter v t a) = wt v + 1"
| "wt (Query strings args) = length strings + wt_list args + 1"
| "wt (Builder first rest) = wt first + 4"
| "wt JUndefined = 0"
| "wt JNull = 0"
| "wt (JBool b) = 0"
| "wt (JNum n) = 0"
| "wt (JStr s) = 0"
| "wt (JBigInt k) = 0"
| "wt (JDate d) = 0"
| "wt (JBytes bs) = 0"
| "wt JPromise = 0"
| "wt (Identifier s) = 0"
| "wt_list [] = 0"
| "wt_list (x # xs) = wt x + 1 + wt_list xs"
| "wt_fields [] = 0"
| "wt_fields (kv # kvs) = wt_field kv + 1 + wt_fields kvs"
| "wt_field (k, v) = wt v"

lemma wt_list_member: "x \<in> set xs \<Longrightarrow> wt x < wt_list xs"
  by (induction xs) auto

lemma wt_list_nth: "i < length xs \<Longrightarrow> wt (xs ! i) < wt_list xs"
  by (simp add: wt_list_member)

lemma wt_fields_map_of: "map_of kvs k = Some v \<Longrightarrow> wt v < wt_fields kvs"
  by (induction kvs) (auto split: if_splits)

lemma wt_first_elem_tl: "wt (first_elem args) + wt_list (tl args) \<le> wt_list args"
  by (cases args) auto

lemma wt_indexed: "(\<And>i. i < n \<Longrightarrow> wt (elem i) \<le> w) \<Longrightarrow> wt (indexed k n elem) \<le> w"
  by (auto simp: indexed_def index_of_def split: option.splits if_splits)

lemma wt_get_key: "get_key v k = Inr u \<Longrightarrow> wt u \<le> wt v"
proof (cases v)
  case (JObj kvs)
  assume "get_key v k = Inr u"
  with JObj show ?thesis
    by (cases "map_of kvs k") (auto dest: wt_fields_map_of)
next
  case (JArr xs)
  assume "get_key v k = Inr u"
  with JArr have "u = indexed k (length xs) (\<lambda>i. xs ! i)" by simp
  moreover have "wt (indexed k (length xs) (\<lambda>i. xs ! i)) \<le> wt_list xs"
    by (rule wt_indexed) (simp add: wt_list_nth less_imp_le)
  ultimately show ?thesis using JArr by simp
next
  case (JStr s)
  assume "get_key v k = Inr u"
  with JStr have "u = indexed k (length s) (\<lambda>i. JStr [s ! i])" by simp
  moreover have "wt (indexed k (length s) (\<lambda>i. JStr [s ! i])) \<le> 0"
    by (rule wt_indexed) simp
  ultimately show ?thesis by simp
next
  case (JBytes bs)
  assume "get_key v k = Inr u"
  with JBytes have "u = indexed k (length bs) (\<lambda>i. JNum (Fin (of_nat (unat (bs ! i)))))" by simp
  moreover have "wt (indexed k (length bs) (\<lambda>i. JNum (Fin (of_nat (unat (bs ! i)))))) \<le> 0"
    by (rule wt_indexed) simp
  ultimately show ?thesis by simp
qed auto

lemma wt_get_prop: "get_prop v column = Inr u \<Longrightarrow> wt u \<le> wt v"
proof -
  assume "get_prop v column = Inr u"
  then obtain k where "get_key v k = Inr u"
    by (auto simp del: get_key.simps simp: get_prop_def split: jsval.splits sum.splits)
  then show ?thesis by (rule wt_get_key)
qed

text \<open>\<^verbatim>\<open>q.strings[0]\<close>; a template always has a first segment (for an empty
  \<^verbatim>\<open>strings\<close> the source goes on with \<^verbatim>\<open>undefined\<close>, here its text).\<close>

fun first_string :: "string list \<Rightarrow> string" where
  "first_string [] = ''undefined''"
| "first_string (s # ss) = s"

text \<open>\<^verbatim>\<open>value && value[0] instanceof Query\<close>, for a value that is not one of the
  wrappers tested before it.\<close>

fun is_query :: "jsval \<Rightarrow> bool" where
  "is_query (Query strings args) = True"
| "is_query v = False"

fun first_is_query :: "jsval \<Rightarrow> bool" where
  "first_is_query (JArr xs) = is_query (first_elem xs)"
| "first_is_query (JObj kvs) = (case map_of kvs ''0'' of Some v \<Rightarrow> is_query v | None \<Rightarrow> False)"
| "first_is_query v = False"

text \<open>
  The mutually recursive functions of the composer. Each takes the arrays \<^verbatim>\<open>parameters\<close>
  and \<^verbatim>\<open>types\<close> as they are and returns its text with the arrays as it leaves them.

  \<^item> \<open>stringify_from\<close> is the loop of \<^verbatim>\<open>stringify\<close> from index \<open>i\<close> on: its first two
    arguments are the rest of \<^verbatim>\<open>q.strings\<close> (from \<open>i\<close>) and of \<^verbatim>\<open>q.args\<close> (from \<open>i\<close>),
    then the text so far and the value of the slot before segment \<open>i\<close>;
  \<^item> \<^verbatim>\<open>fragment\<close> marks the query (\<^verbatim>\<open>q.fragment = true\<close>, a flag that nothing reads) and
    stringifies it from its first segment and first value; on anything but a Query the
    read of \<^verbatim>\<open>q.strings[0]\<close> raises;
  \<^item> \<^verbatim>\<open>Builder.build\<close> picks the builder of the last keyword in the text before it;
  \<^item> \<^verbatim>\<open>update\<close> returns the array of its pairs, which the caller's string concatenation
    joins with commas: \<open>update_fn\<close> returns the joined text.
\<close>

function
  stringify_from ::
    "string list \<Rightarrow> jsval list \<Rightarrow> string \<Rightarrow> jsval \<Rightarrow> jsval list \<Rightarrow> int list \<Rightarrow> options
       \<Rightarrow> error + (string \<times> jsval list \<times> int list)"
  and stringifyValue ::
    "string \<Rightarrow> jsval \<Rightarrow> jsval list \<Rightarrow> int list \<Rightarrow> options
       \<Rightarrow> error + (string \<times> jsval list \<times> int list)"
  and fragment ::
    "jsval \<Rightarrow> jsval list \<Rightarrow> int list \<Rightarrow> options \<Rightarrow> error + (string \<times> jsval list \<times> int list)"
  and build ::
    "jsval \<Rightarrow> jsval list \<Rightarrow> string \<Rightarrow> jsval list \<Rightarrow> int list \<Rightarrow> options
       \<Rightarrow> error + (string \<times> jsval list \<times> int list)"
  and values_fn ::
    "jsval \<Rightarrow> jsval list \<Rightarrow> jsval list \<Rightarrow> int list \<Rightarrow> options
       \<Rightarrow> error + (string \<times> jsval list \<times> int list)"
  and in_fn ::
    "jsval \<Rightarrow> jsval list \<Rightarrow> jsval list \<Rightarrow> int list \<Rightarrow> options
       \<Rightarrow> error + (string \<times> jsval list \<times> int list)"
  and select_fn ::
    "jsval \<Rightarrow> jsval list \<Rightarrow> jsval list \<Rightarrow> int list \<Rightarrow> options
       \<Rightarrow> error + (string \<times> jsval list \<times> int list)"
  and update_fn ::
    "jsval \<Rightarrow> jsval list \<Rightarrow> jsval list \<Rightarrow> int list \<Rightarrow> options
       \<Rightarrow> error + (string \<times> jsval list \<times> int list)"
  and insert_fn ::
    "jsval \<Rightarrow> jsval list \<Rightarrow> jsval list \<Rightarrow> int list \<Rightarrow> options
       \<Rightarrow> error + (string \<times> jsval list \<times> int list)"
  and valuesBuilder ::
    "jsval \<Rightarrow> jsval list \<Rightarrow> int list \<Rightarrow> jsval list \<Rightarrow> options
       \<Rightarrow> error + (string \<times> jsval list \<times> int list)"
where
  "stringify_from strings args string value parameters types opts =
     (case strings of
        [] \<Rightarrow> Inr (string, parameters, types)
      | s # strings' \<Rightarrow>
          (case stringifyValue string value parameters types opts of
             Inl e \<Rightarrow> Inl e
           | Inr (t, parameters', types') \<Rightarrow>
               stringify_from strings' (tl args) (string @ t @ s) (first_elem args)
                 parameters' types' opts))"
| "stringifyValue string value parameters types opts =
     (case value of
        Builder first rest \<Rightarrow> build first rest string parameters types opts
      | Query strings args \<Rightarrow> fragment value parameters types opts
      | Identifier v \<Rightarrow> Inr (v, parameters, types)
      | _ \<Rightarrow>
          if first_is_query value then
            (case value of
               JArr xs \<Rightarrow>
                 (case map_acc (\<lambda>x ps ts. fragment x ps ts opts) xs parameters types of
                    Inl e \<Rightarrow> Inl e
                  | Inr (fs, parameters', types') \<Rightarrow>
                      Inr (concat (map (\<lambda>f. '' '' @ f) fs), parameters', types'))
             | _ \<Rightarrow> Inl (TypeError ''value.reduce is not a function''))
          else handleValue value parameters types opts)"
| "fragment q parameters types opts =
     (case q of
        Query strings args \<Rightarrow>
          stringify_from (tl strings) (tl args) (first_string strings) (first_elem args)
            parameters types opts
      | _ \<Rightarrow> Inl (TypeError ''Cannot read properties of undefined (reading 0)''))"
| "build first rest before parameters types opts =
     (case keyword before of
        (f, i) \<Rightarrow>
          if i = - 1 then map_sum id (\<lambda>t. (t, parameters, types)) (escapeIdentifiers first opts)
          else (case f of
                  Values_fn \<Rightarrow> values_fn first rest parameters types opts
                | In_fn \<Rightarrow> in_fn first rest parameters types opts
                | Select_fn \<Rightarrow> select_fn first rest parameters types opts
                | Update_fn \<Rightarrow> update_fn first rest parameters types opts
                | Insert_fn \<Rightarrow> insert_fn first rest parameters types opts))"
| "values_fn first rest parameters types opts =
     (case get_key first ''0'' of
        Inl e \<Rightarrow> Inl e
      | Inr first0 \<Rightarrow>
          (case columns_of rest (Inr (if isArray first0 then first0 else first)) of
             Inl e \<Rightarrow> Inl e
           | Inr columns \<Rightarrow>
               valuesBuilder (if isArray first0 then first else JArr [first])
                 parameters types columns opts))"
| "in_fn first rest parameters types opts =
     (case values_fn first rest parameters types opts of
        Inl e \<Rightarrow> Inl e
      | Inr (x, parameters', types') \<Rightarrow>
          Inr (if x = ''()'' then ''(null)'' else x, parameters', types'))"
| "select_fn first rest parameters types opts =
     (if isArray (case first of JStr s \<Rightarrow> JArr (first # rest) | _ \<Rightarrow> first) then
        map_sum id (\<lambda>t. (t, parameters, types))
          (escapeIdentifiers (case first of JStr s \<Rightarrow> JArr (first # rest) | _ \<Rightarrow> first) opts)
      else
        (case columns_of rest (Inr first) of
           Inl e \<Rightarrow> Inl e
         | Inr columns \<Rightarrow>
             (case map_acc
                     (\<lambda>x ps ts.
                        case get_prop first x of
                          Inl e \<Rightarrow> Inl e
                        | Inr value \<Rightarrow>
                            (case (if is_query value then fragment value ps ts opts
                                   else case value of
                                          Identifier v \<Rightarrow> Inr (v, ps, ts)
                                        | _ \<Rightarrow> handleValue value ps ts opts) of
                               Inl e \<Rightarrow> Inl e
                             | Inr (t, ps', ts') \<Rightarrow>
                                 (case escape_column opts x of
                                    Inl e \<Rightarrow> Inl e
                                  | Inr c \<Rightarrow> Inr (t @ '' as '' @ c, ps', ts'))))
                     columns parameters types of
                Inl e \<Rightarrow> Inl e
              | Inr (cells, parameters', types') \<Rightarrow> Inr (join '','' cells, parameters', types'))))"
| "update_fn first rest parameters types opts =
     (case columns_of rest (Inr first) of
        Inl e \<Rightarrow> Inl e
      | Inr columns \<Rightarrow>
          (case map_acc
                  (\<lambda>x ps ts.
                     case escape_column opts x of
                       Inl e \<Rightarrow> Inl e
                     | Inr c \<Rightarrow>
                         (case get_prop first x of
                            Inl e \<Rightarrow> Inl e
                          | Inr value \<Rightarrow>
                              (case stringifyValue ''values'' value ps ts opts of
                                 Inl e \<Rightarrow> Inl e
                               | Inr (t, ps', ts') \<Rightarrow> Inr (c @ ''='' @ t, ps', ts'))))
                  columns parameters types of
             Inl e \<Rightarrow> Inl e
           | Inr (cells, parameters', types') \<Rightarrow> Inr (join '','' cells, parameters', types')))"
| "insert_fn first rest parameters types opts =
     (case columns_of rest (if isArray first then get_key first ''0'' else Inr first) of
        Inl e \<Rightarrow> Inl e
      | Inr columns \<Rightarrow>
          (case escapeIdentifiers (JArr columns) opts of
             Inl e \<Rightarrow> Inl e
           | Inr names \<Rightarrow>
               (case valuesBuilder (if isArray first then first else JArr [first])
                       parameters types columns opts of
                  Inl e \<Rightarrow> Inl e
                | Inr (rows, parameters', types') \<Rightarrow>
                    Inr (''('' @ names @ '')values'' @ rows, parameters', types'))))"
| "valuesBuilder first parameters types columns opts =
     (case first of
        JArr rows \<Rightarrow>
          (case map_acc
                  (\<lambda>row ps ts.
                     case map_acc
                            (\<lambda>column ps ts.
                               case get_prop row column of
                                 Inl e \<Rightarrow> Inl e
                               | Inr value \<Rightarrow> stringifyValue ''values'' value ps ts opts)
                            columns ps ts of
                       Inl e \<Rightarrow> Inl e
                     | Inr (cells, ps', ts') \<Rightarrow> Inr (''('' @ join '','' cells @ '')'', ps', ts'))
                  rows parameters types of
             Inl e \<Rightarrow> Inl e
           | Inr (rs, parameters', types') \<Rightarrow> Inr (join '','' rs, parameters', types'))
      | _ \<Rightarrow> Inl (TypeError ''first.map is not a function''))"
  by pat_completeness auto

text \<open>The recursion descends on the weight of the value at hand; calls that keep the value
  (from \<^verbatim>\<open>stringifyValue\<close> to \<^verbatim>\<open>fragment\<close>, from \<^verbatim>\<open>build\<close> to a builder, from
  \<^verbatim>\<open>in\<close> to \<^verbatim>\<open>values\<close>) are ranked.\<close>

definition composer_measure where
  "composer_measure x =
     (case x of
        Inl (Inl (Inl (strings, args, string, value, parameters, types, opts))) \<Rightarrow>
          3 * (wt value + wt_list args + length strings)
      | Inl (Inl (Inr (string, value, parameters, types, opts))) \<Rightarrow> 3 * wt value + 1
      | Inl (Inr (Inl (q, parameters, types, opts))) \<Rightarrow> 3 * wt q
      | Inl (Inr (Inr (Inl (first, rest, before, parameters, types, opts)))) \<Rightarrow>
          3 * (wt first + 3) + 2
      | Inl (Inr (Inr (Inr (first, rest, parameters, types, opts)))) \<Rightarrow> 3 * (wt first + 3)
      | Inr (Inl (Inl (first, rest, parameters, types, opts))) \<Rightarrow> 3 * (wt first + 3) + 1
      | Inr (Inl (Inr (first, rest, parameters, types, opts))) \<Rightarrow> 3 * (wt first + 3)
      | Inr (Inr (Inl (first, rest, parameters, types, opts))) \<Rightarrow> 3 * (wt first + 3)
      | Inr (Inr (Inr (Inl (first, rest, parameters, types, opts)))) \<Rightarrow> 3 * (wt first + 3)
      | Inr (Inr (Inr (Inr (first, parameters, types, columns, opts)))) \<Rightarrow> 3 * wt first)"

lemma wt_get_prop_member:
  "get_prop row column = Inr v \<Longrightarrow> row \<in> set rows \<Longrightarrow> wt v < wt_list rows"
  using wt_get_prop [of row column v] wt_list_member [of row rows] by simp

termination stringify_from
  apply (relation "measure composer_measure")
  apply (auto simp: composer_measure_def dest: wt_get_prop wt_list_member wt_get_prop_member)
  subgoal for args
    using wt_first_elem_tl [of args] by arith
  subgoal for strings args
    using wt_first_elem_tl [of args] by arith
  done

declare stringify_from.simps [simp del] stringifyValue.simps [simp del] fragment.simps [simp del]
  build.simps [simp del] values_fn.simps [simp del] in_fn.simps [simp del]
  select_fn.simps [simp del] update_fn.simps [simp del] insert_fn.simps [simp del]
  valuesBuilder.simps [simp del]

text \<open>\<^verbatim>\<open>stringify(q, string, value, parameters, types, options)\<close>: the loop runs over
  \<^verbatim>\<open>q.strings\<close> from index 1 and takes the later values from \<^verbatim>\<open>q.args\<close>.\<close>

definition stringify ::
  "jsval \<Rightarrow> string \<Rightarrow> jsval \<Rightarrow> jsval list \<Rightarrow> int list \<Rightarrow> options
     \<Rightarrow> error + (string \<times> jsval list \<times> int list)" where
  "stringify q string value parameters types opts =
     (case q of
        Query strings args \<Rightarrow>
          stringify_from (tl strings) (tl args) string value parameters types opts
      | _ \<Rightarrow> Inl (TypeError ''Cannot read properties of undefined (reading length)''))"

section \<open>Queries and the network\<close>

text \<open>\<^verbatim>\<open>new Parameter(value)\<close> with the default type, and the wrapping of the arguments in
  the constructor of \<^verbatim>\<open>Query\<close>.\<close>

definition new_Parameter :: "jsval \<Rightarrow> jsval" where
  "new_Parameter v =
     Parameter v (inferType v) (case v of JArr xs \<Rightarrow> Some (map inferType xs) | _ \<Rightarrow> None)"

fun wrap_arg :: "jsval \<Rightarrow> jsval" where
  "wrap_arg (Parameter v t a) = Parameter v t a"
| "wrap_arg (Identifier s) = Identifier s"
| "wrap_arg (Query strings args) = Query strings args"
| "wrap_arg (Builder first rest) = Builder first rest"
| "wrap_arg v = new_Parameter v"

definition new_Query :: "string list \<Rightarrow> jsval list \<Rightarrow> jsval" where
  "new_Query strings args = Query strings (map wrap_arg args)"

text \<open>The function \<^verbatim>\<open>sql\<close>: called as a template tag it makes a Query; called with one
  string, an Identifier; otherwise a Builder. \<^verbatim>\<open>sql.array\<close> makes a Parameter.\<close>

datatype sql_call = Tagged "string list" "jsval list" | Called jsval "jsval list"

fun sql :: "sql_call \<Rightarrow> jsval" where
  "sql (Tagged strings args) = new_Query strings args"
| "sql (Called (JStr s) []) = Identifier (escapeIdentifier s)"
| "sql (Called first rest) = Builder first rest"

definition sql_array :: "jsval list \<Rightarrow> jsval" where
  "sql_array x =
     Parameter (JArr x)
       (if x \<noteq> [] then (if inferType (JArr x) \<noteq> 0 then inferType (JArr x) else 25) else 0)
       (Some (map inferType x))"

text \<open>The payload of \<^verbatim>\<open>Query.prepare\<close>. An entry of \<^verbatim>\<open>params\<close> is the result of
  \<^verbatim>\<open>serialize\<close>, which is \<^verbatim>\<open>undefined\<close> (\<open>None\<close>) for a value it has no case for.\<close>

record Payload =
  query :: string
  params :: "string option list"
  types :: "int list"

text \<open>\<^verbatim>\<open>Query.prepare\<close>: fresh arrays and the empty options on every call.\<close>

definition prepare :: "runtime \<Rightarrow> jsval \<Rightarrow> error + Payload" where
  "prepare rt q =
     (case q of
        Query strings args \<Rightarrow>
          (case stringify q (first_string strings) (first_elem args) [] [] empty_options of
             Inl e \<Rightarrow> Inl e
           | Inr (text, parameters, tags) \<Rightarrow>
               (case collect (map (serialize rt) parameters) of
                  Inl e \<Rightarrow> Inl e
                | Inr ps \<Rightarrow> Inr \<lparr>query = text, params = ps, types = tags\<rparr>))
      | _ \<Rightarrow> Inl (TypeError ''prepare is not a function''))"

text \<open>
  What \<^verbatim>\<open>execute\<close> posts: \<^verbatim>\<open>transformPayload\<close> of one payload, or of each payload of
  a batch; the type tags are not part of the body. The network is the list of the requests
  posted so far.
\<close>

record Request =
  req_query :: string
  req_params :: "string option list"
  req_arrayMode :: bool

definition transformPayload :: "Payload \<Rightarrow> Request" where
  "transformPayload payload = \<lparr>req_query = query payload, req_params = params payload, req_arrayMode = True\<rparr>"

datatype post = Single Request | Queries "Request list"

definition execute :: "Payload \<Rightarrow> post list \<Rightarrow> post list" where
  "execute payload net = net @ [Single (transformPayload payload)]"

definition execute_batch :: "Payload list \<Rightarrow> post list \<Rightarrow> post list" where
  "execute_batch payloads net = net @ [Queries (map transformPayload payloads)]"

text \<open>
  \<^verbatim>\<open>Query.handle\<close> prepares and calls the handler, which posts. \<^verbatim>\<open>then\<close>,
  \<^verbatim>\<open>catch\<close> and \<^verbatim>\<open>finally\<close> each call \<^verbatim>\<open>handle\<close> and then the method of
  \<^verbatim>\<open>Promise\<close>; \<^verbatim>\<open>Promise.prototype.catch\<close> and \<^verbatim>\<open>Promise.prototype.finally\<close> invoke
  the \<^verbatim>\<open>then\<close> of the object, which is the override again. An exception of
  \<^verbatim>\<open>prepare\<close> leaves the method at once.
\<close>

definition handle :: "runtime \<Rightarrow> jsval \<Rightarrow> post list \<Rightarrow> (error + unit) \<times> post list" where
  "handle rt q net =
     (case prepare rt q of
        Inl e \<Rightarrow> (Inl e, net)
      | Inr payload \<Rightarrow> (Inr (), execute payload net))"

definition Query_then :: "runtime \<Rightarrow> jsval \<Rightarrow> post list \<Rightarrow> (error + unit) \<times> post list" where
  "Query_then rt q net = handle rt q net"



text \<open>
  \<^verbatim>\<open>sql.begin\<close>. The argument is the items, or a function that is called with \<^verbatim>\<open>sql\<close>
  and returns them or raises. A Query is a Promise, as is any other promise. Every item is
  prepared before the one call of \<^verbatim>\<open>execute\<close>.
\<close>

datatype items_or_fn = Items jsval | ItemsFn "error + jsval"

fun instanceof_Promise :: "jsval \<Rightarrow> bool" where
  "instanceof_Promise JPromise = True"
| "instanceof_Promise (Query strings args) = True"
| "instanceof_Promise v = False"

definition prepare_item :: "runtime \<Rightarrow> jsval \<Rightarrow> error + Payload" where
  "prepare_item rt item =
     (if is_query item then prepare rt item
      else Inl (Error ''Invalid query, expected a Query object''))"

definition begin_items :: "runtime \<Rightarrow> jsval \<Rightarrow> post list \<Rightarrow> (error + unit) \<times> post list" where
  "begin_items rt items net =
     (if instanceof_Promise items then
        (Inl (Error ''Invalid transaction, interactive transactions are not supported''), net)
      else case items of
        JArr xs \<Rightarrow>
          (case collect (map (prepare_item rt) xs) of
             Inl e \<Rightarrow> (Inl e, net)
           | Inr queries \<Rightarrow> (Inr (), execute_batch queries net))
      | _ \<Rightarrow> (Inl (Error ''Invalid transaction, expected an array of queries''), net))"

fun sql_begin :: "runtime \<Rightarrow> items_or_fn \<Rightarrow> post list \<Rightarrow> (error + unit) \<times> post list" where
  "sql_begin rt (Items items) net = begin_items rt items net"
| "sql_begin rt (ItemsFn (Inr items)) net = begin_items rt items net"
| "sql_begin rt (ItemsFn (Inl e)) net = (Inl e, net)"

text \<open>A batch in the shape \<^verbatim>\<open>sql.begin\<close> accepts: an array whose elements are all queries.\<close>

definition array_of_queries :: "jsval \<Rightarrow> bool" where
  "array_of_queries items = (case items of JArr xs \<Rightarrow> list_all is_query xs | _ \<Rightarrow> False)"

section \<open>The specification of placeholder numbering\<close>

text \<open>
  The specification's account of composition, written from its words and not from the
  code: a template is flattened, depth first and left to right, into its literal segments
  and its value positions, and the value positions are numbered from left to right with
  no gap and no reuse, starting after the parameters that are already there.
\<close>

datatype token = Lit string | Slot jsval

fun tokens :: "jsval \<Rightarrow> token list"
  and weave :: "string list \<Rightarrow> jsval list \<Rightarrow> token list" where
  "tokens (Query strings args) = Lit (first_string strings) # weave (tl strings) args"
| "tokens JUndefined = [Slot JUndefined]"
| "tokens JNull = [Slot JNull]"
| "tokens (JBool b) = [Slot (JBool b)]"
| "tokens (JNum n) = [Slot (JNum n)]"
| "tokens (JStr s) = [Slot (JStr s)]"
| "tokens (JBigInt k) = [Slot (JBigInt k)]"
| "tokens (JDate d) = [Slot (JDate d)]"
| "tokens (JBytes bs) = [Slot (JBytes bs)]"
| "tokens (JArr xs) = [Slot (JArr xs)]"
| "tokens (JObj kvs) = [Slot (JObj kvs)]"
| "tokens JPromise = [Slot JPromise]"
| "tokens (Parameter v t a) = [Slot (Parameter v t a)]"
| "tokens (Identifier s) = [Slot (Identifier s)]"
| "tokens (Builder f r) = [Slot (Builder f r)]"
| "weave [] args = []"
| "weave (s # ss) [] = []"
| "weave (s # ss) (a # args) = tokens a @ Lit s # weave ss args"

fun slots :: "token list \<Rightarrow> jsval list" where
  "slots [] = []"
| "slots (Lit s # ts) = slots ts"
| "slots (Slot v # ts) = v # slots ts"

text \<open>The text of a token list whose value positions are numbered \<open>n + 1\<close>, \<open>n + 2\<close>, ...\<close>

fun emit :: "nat \<Rightarrow> token list \<Rightarrow> string" where
  "emit n [] = []"
| "emit n (Lit s # ts) = s @ emit n ts"
| "emit n (Slot v # ts) = CHR ''$'' # nat_text (n + 1) @ emit (n + 1) ts"

text \<open>The value and the type tag that a single-parameter position contributes.\<close>

fun slot_value :: "jsval \<Rightarrow> jsval" where
  "slot_value (Parameter v t a) = v"
| "slot_value v = v"

fun slot_type :: "jsval \<Rightarrow> int" where
  "slot_type (Parameter v t a) = parameter_type v t a"
| "slot_type v = inferType v"

text \<open>
  A template every value position of which resolves to a single parameter: as many
  segments as values and one more, and every value a Parameter of a value other than
  \<^verbatim>\<open>undefined\<close> (what the constructor of \<^verbatim>\<open>Query\<close> makes of a plain value) or again
  such a template.
\<close>

fun simple_slot :: "jsval \<Rightarrow> bool"
  and simple_slots :: "jsval list \<Rightarrow> bool" where
  "simple_slot (Parameter v t a) = (v \<noteq> JUndefined)"
| "simple_slot (Query strings args) = (length strings = length args + 1 \<and> simple_slots args)"
| "simple_slot JUndefined = False"
| "simple_slot JNull = False"
| "simple_slot (JBool b) = False"
| "simple_slot (JNum n) = False"
| "simple_slot (JStr s) = False"
| "simple_slot (JBigInt k) = False"
| "simple_slot (JDate d) = False"
| "simple_slot (JBytes bs) = False"
| "simple_slot (JArr xs) = False"
| "simple_slot (JObj kvs) = False"
| "simple_slot JPromise = False"
| "simple_slot (Identifier s) = False"
| "simple_slot (Builder f r) = False"
| "simple_slots [] = True"
| "simple_slots (x # xs) = (simple_slot x \<and> simple_slots xs)"



text \<open>A value position composes as specified when, from any text and any accumulators, it
  yields its numbered text and appends its values and type tags; it fails when it raises
  from any text and any accumulators.\<close>

definition composes_as_specified :: "options \<Rightarrow> jsval \<Rightarrow> bool" where
  "composes_as_specified opts v =
     (\<forall>string ps ts.
        stringifyValue string v ps ts opts =
          Inr (emit (length ts) (tokens v),
               ps @ map slot_value (slots (tokens v)),
               ts @ map slot_type (slots (tokens v))))"


section \<open>Type inference: results\<close>

lemmas OID_defs = OID_untyped_def OID_bool_def OID_bytea_def OID_int8_def OID_int4_def
  OID_text_def OID_jsonb_def OID_float4_def OID_float8_def OID_timestamptz_def

lemma floor_three_halves: "\<lfloor>3 / 2 :: rat\<rfloor> = 1"
  by (simp add: floor_eq_iff)

text \<open>
  Claim C2, as stated, fails: a non-integer number is tagged 700, which the source's table
  names float4, not float8 (701).
\<close>

theorem C2_noninteger_is_not_float8:
  "inferType (JNum (Fin (3 / 2))) = OID_float4 \<and> inferType (JNum (Fin (3 / 2))) \<noteq> OID_float8"
  by (simp add: OID_defs floor_three_halves)

text \<open>
  Claim C2, amended: null maps to untyped (0), a Date to timestamptz, a binary buffer to
  bytea, a boolean to bool, an integer-valued number to int4, every other number to float4
  (700), a bigint to int8, an array to the type of its first element (the empty array to
  untyped), a plain object to jsonb, a string to text; and a Parameter's stated type
  identifier is returned whatever its value.
\<close>

theorem C2_inferType_table:
  "inferType JNull = OID_untyped
   \<and> inferType (JDate d) = OID_timestamptz
   \<and> inferType (JBytes bs) = OID_bytea
   \<and> inferType (JBool b) = OID_bool
   \<and> inferType (JNum (Fin (of_int i))) = OID_int4
   \<and> (\<not> mod1_is_zero n \<longrightarrow> inferType (JNum n) = OID_float4)
   \<and> inferType (JBigInt k) = OID_int8
   \<and> inferType (JArr (x # xs)) = inferType x
   \<and> inferType (JArr []) = OID_untyped
   \<and> (plain_object v \<longrightarrow> inferType v = OID_jsonb)
   \<and> inferType (JStr s) = OID_text
   \<and> inferType (Parameter w t a) = t"
  by (cases v) (simp_all add: OID_defs)

theorem C2_inferType_table_witness:
  "\<not> mod1_is_zero (Fin (3 / 2)) \<and> plain_object (JObj [(''x'', JNum (Fin 1))])
   \<and> inferType (JNum (Fin (3 / 2))) = OID_float4
   \<and> inferType (JObj [(''x'', JNum (Fin 1))]) = OID_jsonb
   \<and> inferType (Parameter (JStr ''a'') 23 None) = 23"
  using C2_inferType_table [of undefined undefined undefined 0 "Fin (3 / 2)" 0 JNull "[]"
      "JObj [(''x'', JNum (Fin 1))]" "''''" "JStr ''a''" 23 None]
  by (simp add: OID_defs floor_three_halves)

text \<open>
  The tag that composition pushes for an array-valued Parameter is read through
  \<^verbatim>\<open>x.array\<close> first: for \<^verbatim>\<open>sql.array\<close> of sixteen booleans followed by a string the
  stated type is 16, which \<^verbatim>\<open>inferType\<close> returns, and the tag pushed is 25.
\<close>

lemma sql_array_tag:
  "inferType (sql_array (replicate 16 (JBool True) @ [JStr ''a''])) = 16
   \<and> map_sum id (\<lambda>r. snd (snd r))
        (handleValue (sql_array (replicate 16 (JBool True) @ [JStr ''a''])) ps ts opts)
     = Inr (ts @ [25])"
  by (simp add: sql_array_def handleValue_def push_value_def parameter_type_def array_at_def
      replicate_append_same numeral_eq_Suc)

section \<open>Codec: results\<close>





lemma list_all_digit_no_space: "list_all is_digit ds \<Longrightarrow> list_all (\<lambda>c. \<not> is_space c) ds"
  by (induction ds) (auto simp: is_digit_def is_space_def)














section \<open>Array text parser: results\<close>

text \<open>
  Claim C5, as stated, fails at its first example: parsing \<^verbatim>\<open>{1,2,3}\<close> with no element
  parser yields one element, the sequence of the three texts, and the array decode path
  (which parses the elements under the untyped tag 0 and flattens one level) yields the
  three numbers; neither is the sequence of the three texts.
\<close>

theorem C5_untyped_elements_counterexample:
  "\<forall>rt. fst (arrayParser arrayParserState_init ''{1,2,3}'' None 0)
          \<noteq> [JStr ''1'', JStr ''2'', JStr ''3'']
     \<and> fst (deserialize rt arrayParserState_init ''{1,2,3}'' 1007)
          \<noteq> Inr (JArr [JStr ''1'', JStr ''2'', JStr ''3''])"
proof (intro allI conjI)
  fix rt :: runtime
  have "fst (arrayParser arrayParserState_init ''{1,2,3}'' None 0)
          = [JArr [JStr ''1'', JStr ''2'', JStr ''3'']]"
    by code_simp
  then show "fst (arrayParser arrayParserState_init ''{1,2,3}'' None 0)
          \<noteq> [JStr ''1'', JStr ''2'', JStr ''3'']"
    by simp
  have "fst (deserialize rt arrayParserState_init ''{1,2,3}'' 1007)
          = Inr (JArr [JNum (Fin 1), JNum (Fin 2), JNum (Fin 3)])"
    by code_simp
  then show "fst (deserialize rt arrayParserState_init ''{1,2,3}'' 1007)
          \<noteq> Inr (JArr [JStr ''1'', JStr ''2'', JStr ''3''])"
    by simp
qed

text \<open>
  Claim C5, amended: from the initial scratch state, parsing \<^verbatim>\<open>{1,2,3}\<close> with no element
  parser yields one outer sequence holding the 3-element sequence of the texts 1, 2, 3,
  and the array decode path yields the three numbers; parsing \<^verbatim>\<open>{{1,2},{3,4}}\<close> yields
  the 2-by-2 nested sequence inside the same outer sequence (nested, not flattened), which
  the decode path unwraps to the 2-by-2 sequence of numbers; and a quoted element with a
  backslash-escaped quote, \<^verbatim>\<open>{"a\"b"}\<close>, yields the single element \<^verbatim>\<open>a"b\<close>.
\<close>

theorem C5_array_parser_examples:
  "fst (arrayParser arrayParserState_init ''{1,2,3}'' None 0)
     = [JArr [JStr ''1'', JStr ''2'', JStr ''3'']]
   \<and> fst (deserialize rt arrayParserState_init ''{1,2,3}'' 1007)
     = Inr (JArr [JNum (Fin 1), JNum (Fin 2), JNum (Fin 3)])
   \<and> fst (arrayParser arrayParserState_init ''{{1,2},{3,4}}'' None 0)
     = [JArr [JArr [JStr ''1'', JStr ''2''], JArr [JStr ''3'', JStr ''4'']]]
   \<and> fst (deserialize rt arrayParserState_init ''{{1,2},{3,4}}'' 1007)
     = Inr (JArr [JArr [JNum (Fin 1), JNum (Fin 2)], JArr [JNum (Fin 3), JNum (Fin 4)]])
   \<and> fst (arrayParser arrayParserState_init
            [CHR ''{'', CHR 0x22, CHR ''a'', CHR 0x5C, CHR 0x22, CHR ''b'', CHR 0x22, CHR ''}'']
            None 0)
     = [JArr [JStr [CHR ''a'', CHR 0x22, CHR ''b'']]]"
proof (intro conjI)
  show "fst (arrayParser arrayParserState_init ''{1,2,3}'' None 0)
     = [JArr [JStr ''1'', JStr ''2'', JStr ''3'']]"
    by code_simp
  show "fst (deserialize rt arrayParserState_init ''{1,2,3}'' 1007)
     = Inr (JArr [JNum (Fin 1), JNum (Fin 2), JNum (Fin 3)])"
    by code_simp
  show "fst (arrayParser arrayParserState_init ''{{1,2},{3,4}}'' None 0)
     = [JArr [JArr [JStr ''1'', JStr ''2''], JArr [JStr ''3'', JStr ''4'']]]"
    by code_simp
  show "fst (deserialize rt arrayParserState_init ''{{1,2},{3,4}}'' 1007)
     = Inr (JArr [JArr [JNum (Fin 1), JNum (Fin 2)], JArr [JNum (Fin 3), JNum (Fin 4)]])"
    by code_simp
  show "fst (arrayParser arrayParserState_init
            [CHR ''{'', CHR 0x22, CHR ''a'', CHR 0x5C, CHR 0x22, CHR ''b'', CHR 0x22, CHR ''}'']
            None 0)
     = [JArr [JStr [CHR ''a'', CHR 0x22, CHR ''b'']]]"
    by code_simp
qed

text \<open>
  The doubled-quote example of claim C5 on the code: \<^verbatim>\<open>{"a""b"}\<close> is parsed to the
  elements \<^verbatim>\<open>a\<close>, the empty text and \<^verbatim>\<open>"}\<close>, followed by a second \<^verbatim>\<open>"}\<close> outside,
  and the scratch state is left inside a quoted span.
\<close>

lemma arrayParser_doubled_quote:
  "arrayParser arrayParserState_init
     [CHR ''{'', CHR 0x22, CHR ''a'', CHR 0x22, CHR 0x22, CHR ''b'', CHR 0x22, CHR ''}''] None 0
   = ([JArr [JStr ''a'', JStr [], JStr [CHR 0x22, CHR ''}'']], JStr [CHR 0x22, CHR ''}'']],
      \<lparr>st_i = 9, st_p = Some (CHR ''}''), st_char = Some (CHR ''}''), st_str = ''}'',
        st_quoted = True, st_last = 6\<rparr>)"
  by code_simp

text \<open>
  Claim C9 on the code: \<^verbatim>\<open>arrayParser\<close> resets the scan position and the last
  element-start offset only. After a parse of the unterminated text \<^verbatim>\<open>{"a\<close> the quoted
  flag stays set and the accumulated string stays \<^verbatim>\<open>a\<close>, and the next top-level parse of
  \<^verbatim>\<open>{1,2,3}\<close> yields the single text \<^verbatim>\<open>{1,2,3}\<close>, where a parse from the initial
  state yields the sequence of 1, 2, 3.
\<close>

theorem C9_parse_depends_on_earlier_parse:
  "fst (arrayParser arrayParserState_init ''{1,2,3}'' None 0)
     = [JArr [JStr ''1'', JStr ''2'', JStr ''3'']]
   \<and> snd (arrayParser arrayParserState_init [CHR ''{'', CHR 0x22, CHR ''a''] None 0)
     = \<lparr>st_i = 4, st_p = Some (CHR ''a''), st_char = Some (CHR ''a''), st_str = ''a'',
         st_quoted = True, st_last = 1\<rparr>
   \<and> fst (arrayParser
            (snd (arrayParser arrayParserState_init [CHR ''{'', CHR 0x22, CHR ''a''] None 0))
            ''{1,2,3}'' None 0)
     = [JStr ''{1,2,3}'']"
proof (intro conjI)
  show "fst (arrayParser arrayParserState_init ''{1,2,3}'' None 0)
     = [JArr [JStr ''1'', JStr ''2'', JStr ''3'']]"
    by code_simp
  show "snd (arrayParser arrayParserState_init [CHR ''{'', CHR 0x22, CHR ''a''] None 0)
     = \<lparr>st_i = 4, st_p = Some (CHR ''a''), st_char = Some (CHR ''a''), st_str = ''a'',
         st_quoted = True, st_last = 1\<rparr>"
    by code_simp
  show "fst (arrayParser
            (snd (arrayParser arrayParserState_init [CHR ''{'', CHR 0x22, CHR ''a''] None 0))
            ''{1,2,3}'' None 0)
     = [JStr ''{1,2,3}'']"
    by code_simp
qed

section \<open>Template composer: results\<close>

text \<open>The equations of the composer that the proofs unfold.\<close>

lemma nat_text_1: "nat_text (Suc 0) = ''1''"
  by code_simp

lemma stringify_from_Nil:
  "stringify_from [] args string v ps ts opts = Inr (string, ps, ts)"
  by (simp add: stringify_from.simps)

lemma stringify_from_Cons:
  "stringify_from (s # strings) args string v ps ts opts =
     (case stringifyValue string v ps ts opts of
        Inl e \<Rightarrow> Inl e
      | Inr (t, ps', ts') \<Rightarrow>
          stringify_from strings (tl args) (string @ t @ s) (first_elem args) ps' ts' opts)"
  by (simp add: stringify_from.simps)

lemma stringifyValue_Parameter:
  "stringifyValue string (Parameter v t a) ps ts opts = handleValue (Parameter v t a) ps ts opts"
  by (simp add: stringifyValue.simps)

lemma stringifyValue_Query:
  "stringifyValue string (Query strings args) ps ts opts = fragment (Query strings args) ps ts opts"
  by (simp add: stringifyValue.simps)

lemma fragment_Query:
  "fragment (Query strings args) ps ts opts =
     stringify_from (tl strings) (tl args) (first_string strings) (first_elem args) ps ts opts"
  by (simp add: fragment.simps)

lemma handleValue_defined:
  "v \<noteq> JUndefined \<Longrightarrow>
     handleValue (Parameter v t a) ps ts opts =
       Inr (CHR ''$'' # nat_text (length ts + 1), ps @ [v], ts @ [parameter_type v t a])"
  by (simp add: handleValue_def push_value_def)

text \<open>The loop of \<^verbatim>\<open>stringify\<close> follows the flattened template.\<close>

lemma slots_append: "slots (xs @ ys) = slots xs @ slots ys"
  by (induction xs rule: slots.induct) simp_all

lemma emit_append: "emit n (xs @ ys) = emit n xs @ emit (n + length (slots xs)) ys"
  by (induction n xs rule: emit.induct) simp_all

lemma simple_slots_member: "simple_slots xs \<Longrightarrow> x \<in> set xs \<Longrightarrow> simple_slot x"
  by (induction xs) auto

lemma stringify_from_weave:
  assumes "length ss = length as"
    and "\<And>a. a \<in> set as \<Longrightarrow> composes_as_specified opts a"
  shows "stringify_from ss (tl as) string (first_elem as) ps ts opts =
           Inr (string @ emit (length ts) (weave ss as),
                ps @ map slot_value (slots (weave ss as)),
                ts @ map slot_type (slots (weave ss as)))"
  using assms
proof (induction ss arbitrary: as string ps ts)
  case Nil
  then show ?case by (simp add: stringify_from_Nil)
next
  case (Cons s ss)
  then obtain a as' where as: "as = a # as'" by (cases as) auto
  from Cons.prems as have len: "length ss = length as'" by simp
  from Cons.prems as have a: "composes_as_specified opts a" by simp
  from Cons.prems as have rest: "\<And>b. b \<in> set as' \<Longrightarrow> composes_as_specified opts b" by simp
  have step: "stringifyValue string a ps ts opts =
      Inr (emit (length ts) (tokens a), ps @ map slot_value (slots (tokens a)),
           ts @ map slot_type (slots (tokens a)))"
    using a by (simp add: composes_as_specified_def)
  have "stringify_from (s # ss) (tl as) string (first_elem as) ps ts opts =
      stringify_from ss (tl as') (string @ emit (length ts) (tokens a) @ s) (first_elem as')
        (ps @ map slot_value (slots (tokens a))) (ts @ map slot_type (slots (tokens a))) opts"
    by (simp add: as stringify_from_Cons step)
  also have "\<dots> =
      Inr ((string @ emit (length ts) (tokens a) @ s)
             @ emit (length (ts @ map slot_type (slots (tokens a)))) (weave ss as'),
           (ps @ map slot_value (slots (tokens a))) @ map slot_value (slots (weave ss as')),
           (ts @ map slot_type (slots (tokens a))) @ map slot_type (slots (weave ss as')))"
    by (rule Cons.IH [OF len rest])
  finally show ?case
    by (simp add: as emit_append slots_append)
qed

lemma simple_slot_composes: "simple_slot v \<Longrightarrow> composes_as_specified opts v"
proof (induction v)
  case (Parameter v t a)
  then show ?case
    by (simp add: composes_as_specified_def stringifyValue_Parameter handleValue_defined)
next
  case (Query strings args)
  from Query.prems have len: "length (tl strings) = length args" by simp
  have each: "\<And>a. a \<in> set args \<Longrightarrow> composes_as_specified opts a"
    using Query.IH Query.prems by (auto dest: simple_slots_member)
  show ?case
    unfolding composes_as_specified_def
    by (simp add: stringifyValue_Query fragment_Query stringify_from_weave [OF len each])
qed simp_all

lemma prepare_fragment:
  "prepare rt (Query strings args) =
     (case fragment (Query strings args) [] [] empty_options of
        Inl e \<Rightarrow> Inl e
      | Inr (text, parameters, tags) \<Rightarrow>
          (case collect (map (serialize rt) parameters) of
             Inl e \<Rightarrow> Inl e
           | Inr ps \<Rightarrow> Inr \<lparr>query = text, params = ps, types = tags\<rparr>))"
  by (simp add: prepare_def stringify_def fragment_Query)

text \<open>
  Claim C3: a template every value position of which resolves to a single parameter,
  nested fragments at any depth included, composes to the text of its flattened token list
  with the value positions numbered consecutively from left to right after the parameters
  already there (from 1 in a prepared statement), appends the values and the type tags of
  the positions in that same depth-first, left-to-right order to the accumulators it was
  given, and the prepared statement holds the serialized values in that order.
\<close>

theorem C3_placeholder_numbering:
  assumes "simple_slot (Query strings args)"
  shows "fragment (Query strings args) ps ts opts
           = Inr (emit (length ts) (tokens (Query strings args)),
                  ps @ map slot_value (slots (tokens (Query strings args))),
                  ts @ map slot_type (slots (tokens (Query strings args))))
    \<and> prepare rt (Query strings args)
           = (case collect (map (serialize rt) (map slot_value (slots (tokens (Query strings args))))) of
                Inl e \<Rightarrow> Inl e
              | Inr texts \<Rightarrow>
                  Inr \<lparr>query = emit 0 (tokens (Query strings args)), params = texts,
                       types = map slot_type (slots (tokens (Query strings args)))\<rparr>)"
proof -
  have frag: "fragment (Query strings args) ps' ts' opts'
           = Inr (emit (length ts') (tokens (Query strings args)),
                  ps' @ map slot_value (slots (tokens (Query strings args))),
                  ts' @ map slot_type (slots (tokens (Query strings args))))" for ps' ts' opts'
    using simple_slot_composes [OF assms, of opts']
    by (simp add: composes_as_specified_def stringifyValue_Query)
  show ?thesis
    by (simp add: frag prepare_fragment del: tokens.simps)
qed

lemma nat_text_small:
  "nat_text (Suc 0) = ''1''" "nat_text (Suc (Suc 0)) = ''2''"
  "nat_text (Suc (Suc (Suc 0))) = ''3''"
  by code_simp+

theorem C3_placeholder_numbering_witness:
  "\<forall>rt. simple_slot (new_Query [''select '', '' where '', []]
            [JNum (Fin 1), new_Query [''a = '', '' and b = '', []] [JStr ''x'', JBool True]])
     \<and> prepare rt (new_Query [''select '', '' where '', []]
            [JNum (Fin 1), new_Query [''a = '', '' and b = '', []] [JStr ''x'', JBool True]])
         = Inr \<lparr>query = ''select $1 where a = $2 and b = $3'',
                params = [Some ''1'', Some ''x'', Some ''t''], types = [23, 25, 16]\<rparr>"
proof (intro allI conjI)
  fix rt :: runtime
  let ?q = "new_Query [''select '', '' where '', []]
            [JNum (Fin 1), new_Query [''a = '', '' and b = '', []] [JStr ''x'', JBool True]]"
  have q: "?q = Query [''select '', '' where '', []]
            [Parameter (JNum (Fin 1)) 23 None,
             Query [''a = '', '' and b = '', []]
               [Parameter (JStr ''x'') 25 None, Parameter (JBool True) 16 None]]"
    by (simp add: new_Query_def new_Parameter_def)
  show h: "simple_slot ?q"
    by (simp add: q)
  have one: "int_text 1 = ''1''"
    by code_simp
  from C3_placeholder_numbering [OF h [unfolded q], of "[]" "[]" empty_options rt]
  show "prepare rt ?q
         = Inr \<lparr>query = ''select $1 where a = $2 and b = $3'',
                params = [Some ''1'', Some ''x'', Some ''t''], types = [23, 25, 16]\<rparr>"
    by (simp add: q nat_text_small parameter_type_def one)
qed

text \<open>
  Claim C10: a native null in a value slot is wrapped as a Parameter of type 0, takes the
  next placeholder, is pushed as a parameter with the type tag 0, and is serialized and
  posted as the four-character text \<^verbatim>\<open>null\<close>.
\<close>

theorem C10_null_parameter:
  "handleValue (wrap_arg JNull) ps ts opts
     = Inr (CHR ''$'' # nat_text (length ts + 1), ps @ [JNull], ts @ [0])
   \<and> serialize rt (wrap_arg JNull) = Inr (Some ''null'')
   \<and> prepare rt (new_Query [s0, s1] [JNull])
     = Inr \<lparr>query = s0 @ ''$1'' @ s1, params = [Some ''null''], types = [0]\<rparr>
   \<and> Query_then rt (new_Query [s0, s1] [JNull]) net
     = (Inr (), net @ [Single \<lparr>req_query = s0 @ ''$1'' @ s1, req_params = [Some ''null''],
                               req_arrayMode = True\<rparr>])"
proof -
  have w: "wrap_arg JNull = Parameter JNull 0 None"
    by (simp add: new_Parameter_def)
  have h: "handleValue (wrap_arg JNull) ps ts opts
     = Inr (CHR ''$'' # nat_text (length ts + 1), ps @ [JNull], ts @ [0])" for ps ts opts
    by (simp add: new_Parameter_def handleValue_defined parameter_type_def)
  have s: "serialize rt (wrap_arg JNull) = Inr (Some ''null'')"
    by (simp add: new_Parameter_def)
  have p: "prepare rt (new_Query [s0, s1] [JNull])
     = Inr \<lparr>query = s0 @ ''$1'' @ s1, params = [Some ''null''], types = [0]\<rparr>"
    by (simp add: prepare_def new_Query_def stringify_def stringify_from_Cons stringify_from_Nil
        stringifyValue_Parameter new_Parameter_def handleValue_defined parameter_type_def
        nat_text_1)
  have t: "Query_then rt (new_Query [s0, s1] [JNull]) net
     = (Inr (), net @ [Single \<lparr>req_query = s0 @ ''$1'' @ s1, req_params = [Some ''null''],
                               req_arrayMode = True\<rparr>])"
    by (simp add: Query_then_def handle_def p execute_def transformPayload_def)
  from h s p t show ?thesis by blast
qed










section \<open>Keyword builders: results\<close>










section \<open>Queries and batches: results\<close>





lemma collect_error:
  "\<exists>x \<in> set xs. isl (f x) \<Longrightarrow> \<exists>e. collect (map f xs) = Inl e"
proof (induction xs)
  case Nil
  then show ?case by simp
next
  case (Cons x xs)
  show ?case
  proof (cases "f x")
    case (Inl e)
    then show ?thesis by simp
  next
    case (Inr y)
    with Cons.prems have "\<exists>x \<in> set xs. isl (f x)" by auto
    then obtain e where "collect (map f xs) = Inl e" using Cons.IH by blast
    with Inr show ?thesis by simp
  qed
qed

lemma begin_items_rejects:
  assumes "\<not> array_of_queries items"
  shows "\<exists>e. begin_items rt items net = (Inl e, net)"
proof (cases items)
  case (JArr xs)
  with assms have "\<exists>x \<in> set xs. \<not> is_query x"
    by (simp add: array_of_queries_def list_all_iff)
  then have "\<exists>x \<in> set xs. isl (prepare_item rt x)"
    by (auto simp: prepare_item_def)
  then obtain e where "collect (map (prepare_item rt) xs) = Inl e"
    using collect_error [of xs "prepare_item rt"] by auto
  with JArr show ?thesis by (simp add: begin_items_def)
qed (simp_all add: begin_items_def)

text \<open>
  Claim C8: a batch that is not an array of queries (a promise, a single query, any other
  value that is not an array, or an array with an element that is not a query) is
  rejected with an error, passed directly or returned by the callback, and the network is
  left as it was.
\<close>

theorem C8_batch_shape_rejected:
  assumes "\<not> array_of_queries items"
  shows "\<exists>e. sql_begin rt (Items items) net = (Inl e, net)
            \<and> sql_begin rt (ItemsFn (Inr items)) net = (Inl e, net)"
  using begin_items_rejects [OF assms, of rt net] by simp

theorem C8_batch_shape_rejected_witness:
  "\<forall>rt net. \<not> array_of_queries (JArr [new_Query [''select '', []] [JNum (Fin 1)], JNum (Fin 3)])
     \<and> (\<exists>e. sql_begin rt (Items (JArr [new_Query [''select '', []] [JNum (Fin 1)], JNum (Fin 3)])) net
               = (Inl e, net)
           \<and> sql_begin rt (ItemsFn (Inr (JArr [new_Query [''select '', []] [JNum (Fin 1)], JNum (Fin 3)]))) net
               = (Inl e, net))"
proof (intro allI conjI)
  fix rt :: runtime and net :: "post list"
  show h: "\<not> array_of_queries (JArr [new_Query [''select '', []] [JNum (Fin 1)], JNum (Fin 3)])"
    by (simp add: array_of_queries_def)
  show "\<exists>e. sql_begin rt (Items (JArr [new_Query [''select '', []] [JNum (Fin 1)], JNum (Fin 3)])) net
               = (Inl e, net)
           \<and> sql_begin rt (ItemsFn (Inr (JArr [new_Query [''select '', []] [JNum (Fin 1)], JNum (Fin 3)]))) net
               = (Inl e, net)"
    by (rule C8_batch_shape_rejected [OF h])
qed

end
